theory Spec2Isabelle
  imports Complex_Main "HOL-Library.Multiset"
begin

section \<open>JavaScript numbers\<close>

text \<open>
  A JavaScript \<^verbatim>\<open>number\<close> is a finite value, one of the two infinities, or NaN.
  A finite number is modelled by the real it denotes: comparisons of numbers are exact,
  so they are the comparisons of these reals. Arithmetic is exact here (the rounding
  of IEEE 754 results to 53 bits is not modelled) and the two zeros are one value.
\<close>

datatype jsnum = Fin real | PosInf | NegInf | NaN

text \<open>The relational operators \<^verbatim>\<open><\<close> and \<^verbatim>\<open>>=\<close>: every comparison with NaN is false.\<close>

fun js_lt :: "jsnum \<Rightarrow> jsnum \<Rightarrow> bool" where
  "js_lt NaN _ = False"
| "js_lt _ NaN = False"
| "js_lt (Fin x) (Fin y) = (x < y)"
| "js_lt (Fin _) PosInf = True"
| "js_lt (Fin _) NegInf = False"
| "js_lt PosInf _ = False"
| "js_lt NegInf NegInf = False"
| "js_lt NegInf _ = True"

fun js_ge :: "jsnum \<Rightarrow> jsnum \<Rightarrow> bool" where
  "js_ge NaN _ = False"
| "js_ge _ NaN = False"
| "js_ge a b = (\<not> js_lt a b)"

text \<open>Strict equality \<^verbatim>\<open>===\<close> on numbers: NaN equals nothing, itself included.\<close>

fun js_strict_eq :: "jsnum \<Rightarrow> jsnum \<Rightarrow> bool" where
  "js_strict_eq NaN _ = False"
| "js_strict_eq _ NaN = False"
| "js_strict_eq a b = (a = b)"

text \<open>Division \<^verbatim>\<open>/\<close> and unary minus.\<close>

fun js_div :: "jsnum \<Rightarrow> jsnum \<Rightarrow> jsnum" where
  "js_div NaN _ = NaN"
| "js_div _ NaN = NaN"
| "js_div (Fin x) (Fin y) =
     (if y = 0 then (if x = 0 then NaN else if 0 < x then PosInf else NegInf)
      else Fin (x / y))"
| "js_div (Fin _) _ = Fin 0"
| "js_div PosInf (Fin y) = (if y < 0 then NegInf else PosInf)"
| "js_div NegInf (Fin y) = (if y < 0 then PosInf else NegInf)"
| "js_div _ _ = NaN"

fun js_neg :: "jsnum \<Rightarrow> jsnum" where
  "js_neg (Fin x) = Fin (- x)"
| "js_neg PosInf = NegInf"
| "js_neg NegInf = PosInf"
| "js_neg NaN = NaN"

section \<open>Numbers as text\<close>

definition is_digit :: "char \<Rightarrow> bool" where
  "is_digit c = (c \<in> set ''0123456789'')"

definition digit_val :: "char \<Rightarrow> nat" where
  "digit_val c = of_char c - 48"

definition digit_char :: "nat \<Rightarrow> char" where
  "digit_char d = ''0123456789'' ! d"

text \<open>The decimal digits of a natural number, most significant first.\<close>

fun digits_of :: "nat \<Rightarrow> string" where
  "digits_of n =
     (if n < 10 then [digit_char n] else digits_of (n div 10) @ [digit_char (n mod 10)])"

declare digits_of.simps [simp del]

definition digits_val :: "string \<Rightarrow> nat" where
  "digits_val ds = foldl (\<lambda>acc c. 10 * acc + digit_val c) 0 ds"

subsection \<open>\<^verbatim>\<open>Number.prototype.toFixed(1)\<close>\<close>

text \<open>
  The language standard gives \<^verbatim>\<open>x.toFixed(1)\<close> as follows. A number that is not finite
  is printed by name. Otherwise the sign is split off; a magnitude of at least \<open>10\<^sup>2\<^sup>1\<close>
  is printed as \<^verbatim>\<open>String(x)\<close> prints it, in exponential notation; any smaller
  magnitude \<open>y\<close> is printed from the integer \<open>n\<close> for which \<open>n / 10 - y\<close> is as close to
  zero as possible (the larger \<open>n\<close> if there are two): the digits of \<open>n\<close>, padded with a
  zero to two digits, with a point before the last digit.
\<close>

definition toFixed_n :: "real \<Rightarrow> nat" where
  "toFixed_n y = nat \<lfloor>y * 10 + 1 / 2\<rfloor>"

definition fixed_text :: "nat \<Rightarrow> string" where
  "fixed_text n =
     (let m = digits_of n;
          m = (if length m \<le> 1 then replicate (2 - length m) (CHR ''0'') @ m else m);
          k = length m
      in take (k - 1) m @ ''.'' @ drop (k - 1) m)"

text \<open>
  Exponential notation for a magnitude of at least \<open>10\<^sup>2\<^sup>1\<close>: the significant digits,
  a point after the first of them if there are more, and the decimal exponent. The
  digits here are those of the exact decimal expansion of the integer part, without
  its trailing zeros; \<^verbatim>\<open>String(x)\<close> prints the shortest digits that read back as the
  same double, which are these whenever the expansion has at most 15 of them.
\<close>

definition exponential_text :: "real \<Rightarrow> string" where
  "exponential_text y =
     (let ds = digits_of (nat \<lfloor>y\<rfloor>);
          s = rev (dropWhile (\<lambda>c. c = CHR ''0'') (rev ds))
      in (case s of [] \<Rightarrow> [] | d # r \<Rightarrow> (if r = [] then [d] else d # ''.'' @ r))
         @ ''e+'' @ digits_of (length ds - 1))"

fun toFixed1 :: "jsnum \<Rightarrow> string" where
  "toFixed1 NaN = ''NaN''"
| "toFixed1 PosInf = ''Infinity''"
| "toFixed1 NegInf = ''-Infinity''"
| "toFixed1 (Fin x) =
     (let s = (if x < 0 then ''-'' else ''''); y = (if x < 0 then - x else x)
      in s @ (if 10 ^ 21 \<le> y then exponential_text y else fixed_text (toFixed_n y)))"

subsection \<open>\<^verbatim>\<open>parseFloat\<close>\<close>

text \<open>
  \<^verbatim>\<open>parseFloat\<close> skips leading white space and reads the longest prefix that is a
  decimal literal: an optional sign, then \<^verbatim>\<open>Infinity\<close> or digits with an optional
  fraction and an optional exponent. Whatever follows is ignored; with no such prefix
  the result is NaN. The value is the exact decimal value of the literal; its rounding
  to the nearest double (by which a literal below the smallest double reads as zero
  and one above the largest as Infinity) is not modelled. Only the white space of
  ASCII is recognised.
\<close>

definition is_ws :: "char \<Rightarrow> bool" where
  "is_ws c = (c \<in> set [CHR 0x09, CHR 0x0A, CHR 0x0B, CHR 0x0C, CHR 0x0D, CHR '' ''])"

definition exponent_part :: "string \<Rightarrow> int" where
  "exponent_part r =
     (case r of [] \<Rightarrow> 0
      | c # r1 \<Rightarrow>
          if c = CHR ''e'' \<or> c = CHR ''E'' then
            (case r1 of [] \<Rightarrow> 0
             | sg # r2 \<Rightarrow>
                 if sg = CHR ''-'' then - int (digits_val (takeWhile is_digit r2))
                 else if sg = CHR ''+'' then int (digits_val (takeWhile is_digit r2))
                 else int (digits_val (takeWhile is_digit r1)))
          else 0)"

definition scale10 :: "real \<Rightarrow> int \<Rightarrow> real" where
  "scale10 v e = (if 0 \<le> e then v * 10 ^ nat e else v / 10 ^ nat (- e))"

definition unsigned_literal :: "string \<Rightarrow> jsnum" where
  "unsigned_literal u =
     (if take 8 u = ''Infinity'' then PosInf
      else
        let ip = takeWhile is_digit u;
            r1 = dropWhile is_digit u;
            has_dot = (r1 \<noteq> [] \<and> hd r1 = CHR ''.'');
            fp = (if has_dot then takeWhile is_digit (tl r1) else []);
            r2 = (if has_dot then dropWhile is_digit (tl r1) else r1)
        in if ip = [] \<and> fp = [] then NaN
           else Fin (scale10 (real (digits_val ip) + real (digits_val fp) / 10 ^ length fp)
                       (exponent_part r2)))"

definition parseFloat :: "string \<Rightarrow> jsnum" where
  "parseFloat s =
     (case dropWhile is_ws s of [] \<Rightarrow> NaN
      | c # r \<Rightarrow>
          if c = CHR ''-'' then js_neg (unsigned_literal r)
          else if c = CHR ''+'' then unsigned_literal r
          else unsigned_literal (c # r))"


text \<open>
  Rounding to one decimal, as the specification words it for the index: the nearest
  multiple of one tenth, the upper one of two equally near.
\<close>

definition round_one_decimal :: "real \<Rightarrow> real" where
  "round_one_decimal x = of_int \<lfloor>x * 10 + 1 / 2\<rfloor> / 10"

section \<open>Entries and the index\<close>

datatype GlucoseUnit = MgDl | MmolL

text \<open>
  An entry. The identifier is absent until the store has assigned one. The timestamp
  is \<^verbatim>\<open>new Date().getTime()\<close>, a whole number of milliseconds.
\<close>

record entry =
  entry_id :: "jsnum option"
  glucose :: jsnum
  glucoseUnit :: GlucoseUnit
  ketones :: jsnum
  gki :: string
  timestamp :: int

text \<open>\<^verbatim>\<open>convertGlucoseToMmol\<close> and \<^verbatim>\<open>calculateGKI\<close> (App.tsx, lines 45 to 64).\<close>

definition convertGlucoseToMmol :: "jsnum \<Rightarrow> GlucoseUnit \<Rightarrow> jsnum" where
  "convertGlucoseToMmol glucose' unit =
     (if unit = MgDl then js_div glucose' (Fin 18) else glucose')"

definition calculateGKI :: "jsnum \<Rightarrow> jsnum \<Rightarrow> GlucoseUnit \<Rightarrow> string" where
  "calculateGKI glucoseValue ketonesValue unit =
     (let glucoseInMmol = convertGlucoseToMmol glucoseValue unit
      in toFixed1 (js_div glucoseInMmol ketonesValue))"

section \<open>Messages and the ketosis zones\<close>

text \<open>The table \<^verbatim>\<open>messages\<close> (App.tsx, lines 19 to 43).\<close>

definition invalidInput :: string where
  "invalidInput = ''Please enter valid glucose and ketone values. Ketones cannot be zero.''"

definition errorInitializingDatabase :: "string \<Rightarrow> string" where
  "errorInitializingDatabase reason = ''Error initializing database: '' @ reason"

definition errorDeletingEntry :: string where
  "errorDeletingEntry = ''Failed to delete entry''"

definition errorDeletingEntryDetailed :: "string \<Rightarrow> string" where
  "errorDeletingEntryDetailed reason = ''Failed to delete entry: '' @ reason"

definition errorSavingEntry :: string where
  "errorSavingEntry = ''Failed yo save entry''"

definition errorSavingEntryDetailed :: "string \<Rightarrow> string" where
  "errorSavingEntryDetailed reason = ''Failed to save entry: '' @ reason"

definition errorSavingEntryInvalidKeyType :: "string \<Rightarrow> string" where
  "errorSavingEntryInvalidKeyType actualType =
     ''Failed to save entry: expected a number, but got a '' @ actualType"

definition failedOpeningDB :: string where
  "failedOpeningDB = ''Failed to open database''"

definition failedRetrievingEntries :: string where
  "failedRetrievingEntries = ''Failed to retrieve entries''"

datatype zone_key = deep | moderate | light | mild | none

fun ketosisZone :: "zone_key \<Rightarrow> string" where
  "ketosisZone deep = ''Deep therapeutic ketosis''"
| "ketosisZone moderate = ''Moderate therapeutic ketosis''"
| "ketosisZone light = ''Light nutritional ketosis''"
| "ketosisZone mild = ''Mild ketosis''"
| "ketosisZone none = ''Not in ketosis''"

text \<open>\<^verbatim>\<open>getGKIZone\<close> (App.tsx, lines 204 to 220).\<close>

record gki_zone =
  zone :: zone_key
  color :: string

definition getGKIZone :: "jsnum \<Rightarrow> gki_zone" where
  "getGKIZone gki' =
     (if js_lt gki' (Fin 1) then \<lparr>zone = deep, color = ''bg-purple-500''\<rparr>
      else if js_ge gki' (Fin 1) \<and> js_lt gki' (Fin 3)
        then \<lparr>zone = moderate, color = ''bg-blue-500''\<rparr>
      else if js_ge gki' (Fin 3) \<and> js_lt gki' (Fin 6)
        then \<lparr>zone = light, color = ''bg-green-500''\<rparr>
      else if js_ge gki' (Fin 6) \<and> js_lt gki' (Fin 9)
        then \<lparr>zone = mild, color = ''bg-yellow-500''\<rparr>
      else \<lparr>zone = none, color = ''bg-red-500''\<rparr>)"

section \<open>The store\<close>

text \<open>
  The key a completed add request reports in \<^verbatim>\<open>request.result\<close>: a number, a string,
  another kind of key (a date, a buffer or an array, all objects), or nothing.
\<close>

datatype idb_key = KeyUndefined | KeyNumber jsnum | KeyString string | KeyObject

fun js_typeof :: "idb_key \<Rightarrow> string" where
  "js_typeof KeyUndefined = ''undefined''"
| "js_typeof (KeyNumber _) = ''number''"
| "js_typeof (KeyString _) = ''string''"
| "js_typeof KeyObject = ''object''"

text \<open>What a rejected promise carries: an \<^verbatim>\<open>Error\<close> with its message, or another value.\<close>

datatype thrown = ErrorObj string | OtherThrown

datatype store_op = OpOpen | OpAdd entry | OpDelete jsnum | OpGetAll

text \<open>
  The database: the records of the one object store, each under its key, and the
  operations issued against it so far.
\<close>

record idb =
  records :: "(idb_key \<times> entry) list"
  oplog :: "store_op list"

text \<open>
  What the surroundings answer during one handler: whether the open request succeeds,
  how the add request ends (\<open>None\<close> for its \<^verbatim>\<open>onerror\<close>, otherwise the key reported to
  \<^verbatim>\<open>onsuccess\<close>), whether the delete and the read requests succeed, what the user
  answers to the confirmation, and the clock. The transaction and the object store
  are taken to exist once the database is open: the upgrade handler creates the store.
\<close>

record env =
  open_ok :: bool
  add_outcome :: "idb_key option"
  delete_ok :: bool
  getAll_ok :: bool
  confirm_yes :: bool
  now :: int

text \<open>
  \<^verbatim>\<open>openDatabase\<close>, \<^verbatim>\<open>getAllEntries\<close>, \<^verbatim>\<open>addEntry\<close> and \<^verbatim>\<open>deleteEntry\<close> (App.tsx, lines 95
  to 201). A promise is its outcome: \<open>Inl\<close> what it rejects with, \<open>Inr\<close> what it resolves to.
\<close>

definition log_op :: "store_op \<Rightarrow> idb \<Rightarrow> idb" where
  "log_op op db = db\<lparr>oplog := oplog db @ [op]\<rparr>"

definition openDatabase :: "env \<Rightarrow> idb \<Rightarrow> (thrown + unit) \<times> idb" where
  "openDatabase env db =
     (if open_ok env then Inr () else Inl (ErrorObj failedOpeningDB), log_op OpOpen db)"

definition getAllEntries :: "env \<Rightarrow> idb \<Rightarrow> (thrown + entry list) \<times> idb" where
  "getAllEntries env db =
     (if getAll_ok env then Inr (map snd (records db))
      else Inl (ErrorObj failedRetrievingEntries), log_op OpGetAll db)"

text \<open>
  The store keeps the value under the reported key; with the key path \<^verbatim>\<open>id\<close> a
  generated number is also written into the stored value.
\<close>

fun stored_value :: "idb_key \<Rightarrow> entry \<Rightarrow> entry" where
  "stored_value (KeyNumber n) e = e\<lparr>entry_id := Some n\<rparr>"
| "stored_value _ e = e"

definition addEntry :: "env \<Rightarrow> idb \<Rightarrow> entry \<Rightarrow> (thrown + jsnum) \<times> idb" where
  "addEntry env db e =
     (case openDatabase env db of
        (Inl err, db1) \<Rightarrow> (Inl err, db1)
      | (Inr _, db1) \<Rightarrow>
          (let db2 = log_op (OpAdd e) db1
           in case add_outcome env of
                None \<Rightarrow> (Inl (ErrorObj ''Failed to add entry''), db2)
              | Some k \<Rightarrow>
                  (let db3 = db2\<lparr>records := records db2 @ [(k, stored_value k e)]\<rparr>
                   in case k of
                        KeyUndefined \<Rightarrow> (Inl (ErrorObj errorSavingEntry), db3)
                      | KeyNumber n \<Rightarrow> (Inr n, db3)
                      | _ \<Rightarrow>
                          (Inl (ErrorObj (errorSavingEntryInvalidKeyType (js_typeof k))),
                           db3))))"

definition deleteEntry :: "env \<Rightarrow> idb \<Rightarrow> jsnum option \<Rightarrow> (thrown + unit) \<times> idb" where
  "deleteEntry env db i =
     (case i of
        None \<Rightarrow> (Inr (), db)
      | Some n \<Rightarrow>
          (case openDatabase env db of
             (Inl err, db1) \<Rightarrow> (Inl err, db1)
           | (Inr _, db1) \<Rightarrow>
               (let db2 = log_op (OpDelete n) db1
                in if delete_ok env
                   then (Inr (),
                         db2\<lparr>records := filter (\<lambda>(k, _). k \<noteq> KeyNumber n) (records db2)\<rparr>)
                   else (Inl (ErrorObj ''Failed to delete entry''), db2))))"

section \<open>The application\<close>

text \<open>
  The state of the component: the two text fields and the unit of the form, the list
  shown as history, and the two start-up flags.
\<close>

record app_state =
  glucose_field :: string
  ketones_field :: string
  glucoseUnit_field :: GlucoseUnit
  entries :: "entry list"
  loading :: bool
  dbError :: "string option"

datatype effect = Alert string | ConsoleError string "thrown option"

definition reason_of :: "thrown \<Rightarrow> string" where
  "reason_of err = (case err of ErrorObj m \<Rightarrow> m | OtherThrown \<Rightarrow> ''Unknown error'')"

subsection \<open>\<^verbatim>\<open>Array.prototype.sort\<close> with a comparator\<close>

text \<open>
  The sort is stable: \<open>a\<close> comes before \<open>b\<close> when the comparator is negative on
  \<open>(a, b)\<close>, after it when positive, and equal elements keep their order. For a
  consistent comparator that fixes the result, which stable insertion computes.
\<close>

fun insert_by :: "('a \<Rightarrow> 'a \<Rightarrow> int) \<Rightarrow> 'a \<Rightarrow> 'a list \<Rightarrow> 'a list" where
  "insert_by cmp x [] = [x]"
| "insert_by cmp x (y # ys) =
     (if cmp x y \<le> 0 then x # y # ys else y # insert_by cmp x ys)"

definition js_sort :: "('a \<Rightarrow> 'a \<Rightarrow> int) \<Rightarrow> 'a list \<Rightarrow> 'a list" where
  "js_sort cmp xs = foldr (insert_by cmp) xs []"

subsection \<open>Start-up\<close>

text \<open>\<^verbatim>\<open>initDB\<close> (App.tsx, lines 76 to 89).\<close>

definition initDB :: "env \<Rightarrow> app_state \<Rightarrow> idb \<Rightarrow> app_state \<times> idb \<times> effect list" where
  "initDB env st db =
     (let failed = (\<lambda>err db'.
            let errorMessage = errorInitializingDatabase (reason_of err)
            in (st\<lparr>dbError := Some errorMessage, loading := False\<rparr>, db',
                [ConsoleError errorMessage None]))
      in case openDatabase env db of
           (Inl err, db1) \<Rightarrow> failed err db1
         | (Inr _, db1) \<Rightarrow>
             (case getAllEntries env db1 of
                (Inl err, db2) \<Rightarrow> failed err db2
              | (Inr storedEntries, db2) \<Rightarrow>
                  (st\<lparr>entries := js_sort (\<lambda>a b. timestamp b - timestamp a) storedEntries,
                      loading := False\<rparr>, db2, [])))"

subsection \<open>Submitting the form\<close>

text \<open>The entry built from the form, before the store has given it an identifier.\<close>

definition newEntry :: "env \<Rightarrow> app_state \<Rightarrow> entry" where
  "newEntry env st =
     (let glucoseValue = parseFloat (glucose_field st);
          ketonesValue = parseFloat (ketones_field st);
          gkiValue = calculateGKI glucoseValue ketonesValue (glucoseUnit_field st)
      in \<lparr>entry_id = None, glucose = glucoseValue, glucoseUnit = glucoseUnit_field st,
          ketones = ketonesValue, gki = gkiValue, timestamp = now env\<rparr>)"

text \<open>
  \<^verbatim>\<open>handleSubmit\<close> (App.tsx, lines 223 to 257). An empty string is the only false one,
  so \<^verbatim>\<open>!glucose\<close> tests for the empty text.
\<close>

definition handleSubmit :: "env \<Rightarrow> app_state \<Rightarrow> idb \<Rightarrow> app_state \<times> idb \<times> effect list" where
  "handleSubmit env st db =
     (if glucose_field st = [] \<or> ketones_field st = []
         \<or> js_strict_eq (parseFloat (ketones_field st)) (Fin 0)
      then (st, db, [Alert invalidInput])
      else
        (case addEntry env db (newEntry env st) of
           (Inr i, db') \<Rightarrow>
             (st\<lparr>entries := (newEntry env st)\<lparr>entry_id := Some i\<rparr> # entries st,
                 glucose_field := [], ketones_field := []\<rparr>, db', [])
         | (Inl err, db') \<Rightarrow>
             (st, db',
              [ConsoleError ''Error adding entry:'' (Some err),
               Alert (errorSavingEntryDetailed (reason_of err))])))"

subsection \<open>Deleting an entry\<close>

text \<open>
  \<^verbatim>\<open>handleDelete\<close> (App.tsx, lines 260 to 279). In \<^verbatim>\<open>entry.id !== id\<close> an entry without
  identifier differs from every number.
\<close>

definition id_differs :: "jsnum \<Rightarrow> entry \<Rightarrow> bool" where
  "id_differs i e = (case entry_id e of None \<Rightarrow> True | Some n \<Rightarrow> \<not> js_strict_eq n i)"

definition handleDelete ::
  "env \<Rightarrow> app_state \<Rightarrow> idb \<Rightarrow> jsnum option \<Rightarrow> app_state \<times> idb \<times> effect list" where
  "handleDelete env st db i =
     (case i of
        None \<Rightarrow> (st, db, [])
      | Some n \<Rightarrow>
          if \<not> confirm_yes env then (st, db, [])
          else
            (case deleteEntry env db (Some n) of
               (Inr _, db') \<Rightarrow> (st\<lparr>entries := filter (id_differs n) (entries st)\<rparr>, db', [])
             | (Inl err, db') \<Rightarrow>
                 (st, db',
                  [Alert (case err of
                            ErrorObj m \<Rightarrow> errorDeletingEntryDetailed m
                          | OtherThrown \<Rightarrow> errorDeletingEntry)])))"

subsection \<open>Sample data\<close>

text \<open>
  A store that answers every request, an empty database, a form state in mg/dL and a
  stored entry, for running the handlers on concrete input.
\<close>

abbreviation sample_env :: env where
  "sample_env \<equiv>
     \<lparr>open_ok = True, add_outcome = Some (KeyNumber (Fin 7)), delete_ok = True,
      getAll_ok = True, confirm_yes = True, now = 1000\<rparr>"

abbreviation sample_db :: idb where
  "sample_db \<equiv> \<lparr>records = [], oplog = []\<rparr>"

abbreviation sample_form :: "string \<Rightarrow> string \<Rightarrow> entry list \<Rightarrow> app_state" where
  "sample_form g k es \<equiv>
     \<lparr>glucose_field = g, ketones_field = k, glucoseUnit_field = MgDl, entries = es,
      loading = False, dbError = None\<rparr>"

abbreviation sample_entry :: "real \<Rightarrow> int \<Rightarrow> entry" where
  "sample_entry i t \<equiv>
     \<lparr>entry_id = Some (Fin i), glucose = Fin 90, glucoseUnit = MgDl, ketones = Fin 3,
      gki = ''1.7'', timestamp = t\<rparr>"

section \<open>Digits and the text of a number\<close>












text \<open>The equations that evaluate the text functions on concrete input.\<close>

lemmas text_eval = parseFloat_def unsigned_literal_def scale10_def exponent_part_def is_ws_def
  is_digit_def digit_val_def digits_val_def fixed_text_def toFixed_n_def exponential_text_def
  digit_char_def digits_of.simps convertGlucoseToMmol_def calculateGKI_def

section \<open>Classification\<close>

lemma zone_getGKIZone_Fin:
  "zone (getGKIZone (Fin g)) =
     (if g < 1 then deep else if g < 3 then moderate else if g < 6 then light
      else if g < 9 then mild else none)"
  by (simp add: getGKIZone_def)

text \<open>
  C1: the classification returns a zone for every number, and on the reals the five
  zones are exactly the half-open bands: deep for \<open>g < 1\<close>, moderate for \<open>1 \<le> g < 3\<close>,
  light for \<open>3 \<le> g < 6\<close>, mild for \<open>6 \<le> g < 9\<close>, none for \<open>9 \<le> g\<close>. Each zone is
  characterised by its band, so no two bands overlap and none is missing; the boundary
  values 1, 3, 6 and 9 fall into the band they open.
\<close>

theorem getGKIZone_bands:
  "(zone (getGKIZone (Fin g)) = deep \<longleftrightarrow> g < 1) \<and>
   (zone (getGKIZone (Fin g)) = moderate \<longleftrightarrow> 1 \<le> g \<and> g < 3) \<and>
   (zone (getGKIZone (Fin g)) = light \<longleftrightarrow> 3 \<le> g \<and> g < 6) \<and>
   (zone (getGKIZone (Fin g)) = mild \<longleftrightarrow> 6 \<le> g \<and> g < 9) \<and>
   (zone (getGKIZone (Fin g)) = none \<longleftrightarrow> 9 \<le> g) \<and>
   zone (getGKIZone (Fin 1)) = moderate \<and>
   zone (getGKIZone (Fin 3)) = light \<and>
   zone (getGKIZone (Fin 6)) = mild \<and>
   zone (getGKIZone (Fin 9)) = none"
  by (simp add: zone_getGKIZone_Fin)

theorem getGKIZone_bands_witness:
  "zone (getGKIZone (Fin (5 / 2))) = moderate \<and> (1::real) \<le> 5 / 2 \<and> (5 / 2 :: real) < 3 \<and>
   ketosisZone (zone (getGKIZone (Fin (5 / 2)))) = ''Moderate therapeutic ketosis''"
  using getGKIZone_bands [of "5 / 2"] by simp

text \<open>
  C10: the classification is defined on every number, not only on the non-negative
  reals: every negative real and negative infinity are classified as deep, and NaN
  (what \<^verbatim>\<open>parseFloat\<close> returns for a malformed index text) fails every comparison and
  is classified as none (not in ketosis).
\<close>

theorem getGKIZone_negative_and_NaN:
  "(g < 0 \<longrightarrow> zone (getGKIZone (Fin g)) = deep) \<and>
   zone (getGKIZone NegInf) = deep \<and>
   zone (getGKIZone NaN) = none \<and>
   ketosisZone (zone (getGKIZone NaN)) = ''Not in ketosis'' \<and>
   parseFloat ''n/a'' = NaN \<and>
   zone (getGKIZone (parseFloat ''n/a'')) = none"
proof -
  have "parseFloat ''n/a'' = NaN" by (simp add: text_eval)
  then show ?thesis by (simp add: getGKIZone_def)
qed

theorem getGKIZone_negative_and_NaN_witness:
  "(-2 :: real) < 0 \<and> zone (getGKIZone (Fin (-2))) = deep \<and> zone (getGKIZone NaN) = none"
  using getGKIZone_negative_and_NaN [of "-2"] by simp

section \<open>The index text\<close>


lemma round_one_decimal_nearest:
  "\<bar>round_one_decimal x - x\<bar> \<le> 1 / 20 \<and> \<bar>round_one_decimal x - x\<bar> \<le> \<bar>of_int m / 10 - x\<bar>"
proof -
  define n where "n = \<lfloor>x * 10 + 1 / 2\<rfloor>"
  have lo: "of_int n \<le> x * 10 + 1 / 2" and hi: "x * 10 + 1 / 2 < of_int n + 1"
    unfolding n_def by linarith+
  have r: "round_one_decimal x = of_int n / 10"
    by (simp add: round_one_decimal_def n_def)
  have near: "\<bar>of_int n / 10 - x\<bar> \<le> 1 / 20" using lo hi by linarith
  have "\<bar>of_int n / 10 - x\<bar> \<le> \<bar>of_int m / 10 - x\<bar>"
  proof (cases "m = n")
    case True
    then show ?thesis by simp
  next
    case False
    then consider "m \<le> n - 1" | "n + 1 \<le> m" by linarith
    then show ?thesis
    proof cases
      case 1
      then have "(of_int m :: real) \<le> of_int n - 1" by (metis of_int_le_iff of_int_diff of_int_1)
      then show ?thesis using lo hi by linarith
    next
      case 2
      then have "(of_int n :: real) + 1 \<le> of_int m" by (metis of_int_le_iff of_int_add of_int_1)
      then show ?thesis using lo hi by linarith
    qed
  qed
  then show ?thesis using near unfolding r by blast
qed






text \<open>
  C3: in mg/dL the glucose is divided by the fixed factor 18, in mmol/L it is returned
  unchanged; 90 mg/dL converts to 5, and with ketones 3 the index text is \<^verbatim>\<open>1.7\<close>.
\<close>

theorem convertGlucoseToMmol_factor:
  "convertGlucoseToMmol (Fin x) MgDl = Fin (x / 18) \<and>
   convertGlucoseToMmol v MgDl = js_div v (Fin 18) \<and>
   convertGlucoseToMmol v MmolL = v \<and>
   convertGlucoseToMmol (Fin 90) MgDl = Fin 5 \<and>
   calculateGKI (Fin 90) (Fin 3) MgDl = ''1.7''"
  by (simp add: text_eval)

section \<open>Validation of the form\<close>

lemma js_strict_eq_Fin [simp]: "js_strict_eq x (Fin r) \<longleftrightarrow> x = Fin r"
  by (cases x) simp_all

lemma js_strict_eq_iff: "i \<noteq> NaN \<Longrightarrow> js_strict_eq x i \<longleftrightarrow> x = i"
  by (cases x; cases i) simp_all




section \<open>The store operations\<close>

text \<open>
  C5: when the add request completes, a missing key fails with the plain save error,
  a key that is not a number fails with the message that names its type (for a string
  key: expected a number, but got a string), and a number key is the result.
\<close>

theorem addEntry_key_check:
  assumes "open_ok env"
  shows "(add_outcome env = Some KeyUndefined \<longrightarrow>
            fst (addEntry env db e) = Inl (ErrorObj errorSavingEntry)) \<and>
         (add_outcome env = Some k \<and> k \<noteq> KeyUndefined \<and> js_typeof k \<noteq> ''number'' \<longrightarrow>
            fst (addEntry env db e) =
              Inl (ErrorObj (''Failed to save entry: expected a number, but got a '' @ js_typeof k))) \<and>
         (add_outcome env = Some (KeyString s) \<longrightarrow>
            fst (addEntry env db e) =
              Inl (ErrorObj ''Failed to save entry: expected a number, but got a string'')) \<and>
         (add_outcome env = Some (KeyNumber n) \<longrightarrow> fst (addEntry env db e) = Inr n)"
  using assms
  by (cases k)
    (simp_all add: addEntry_def openDatabase_def Let_def errorSavingEntryInvalidKeyType_def)

theorem addEntry_key_check_witness:
  "open_ok (sample_env\<lparr>add_outcome := Some (KeyString ''k1'')\<rparr>) \<and>
   fst (addEntry (sample_env\<lparr>add_outcome := Some (KeyString ''k1'')\<rparr>) sample_db
          ((sample_entry 0 1000)\<lparr>entry_id := None\<rparr>))
   = Inl (ErrorObj ''Failed to save entry: expected a number, but got a string'')"
  using addEntry_key_check
    [where env = "sample_env\<lparr>add_outcome := Some (KeyString ''k1'')\<rparr>" and s = "''k1''"
       and db = sample_db and e = "(sample_entry 0 1000)\<lparr>entry_id := None\<rparr>"]
  by simp

text \<open>
  C7: without an identifier \<^verbatim>\<open>deleteEntry\<close> returns at once, the database and its
  operation log untouched; with one it opens the database and issues the delete, after
  which no record has that key and the others are kept, or fails with the deletion
  error, the records unchanged, when the delete request fails.
\<close>

theorem deleteEntry_contract:
  "deleteEntry env db None = (Inr (), db) \<and>
   (open_ok env \<and> delete_ok env \<longrightarrow>
      fst (deleteEntry env db (Some n)) = Inr () \<and>
      records (snd (deleteEntry env db (Some n)))
        = filter (\<lambda>(k, _). k \<noteq> KeyNumber n) (records db) \<and>
      KeyNumber n \<notin> fst ` set (records (snd (deleteEntry env db (Some n)))) \<and>
      oplog (snd (deleteEntry env db (Some n))) = oplog db @ [OpOpen, OpDelete n]) \<and>
   (open_ok env \<and> \<not> delete_ok env \<longrightarrow>
      fst (deleteEntry env db (Some n)) = Inl (ErrorObj ''Failed to delete entry'') \<and>
      records (snd (deleteEntry env db (Some n))) = records db)"
  by (auto simp: deleteEntry_def openDatabase_def log_op_def Let_def)

theorem deleteEntry_contract_witness:
  "deleteEntry sample_env
     \<lparr>records = [(KeyNumber (Fin 1), sample_entry 1 10), (KeyNumber (Fin 2), sample_entry 2 20)],
      oplog = []\<rparr> (Some (Fin 1))
   = (Inr (), \<lparr>records = [(KeyNumber (Fin 2), sample_entry 2 20)],
               oplog = [OpOpen, OpDelete (Fin 1)]\<rparr>)"
proof -
  let ?db = "\<lparr>records = [(KeyNumber (Fin 1), sample_entry 1 10),
                          (KeyNumber (Fin 2), sample_entry 2 20)], oplog = []\<rparr>"
  obtain r d where rd: "deleteEntry sample_env ?db (Some (Fin 1)) = (r, d)"
    by (cases "deleteEntry sample_env ?db (Some (Fin 1))")
  have "r = Inr () \<and> records d = [(KeyNumber (Fin 2), sample_entry 2 20)]
        \<and> oplog d = [OpOpen, OpDelete (Fin 1)]"
    using deleteEntry_contract [where env = sample_env and db = ?db and n = "Fin 1"] rd
    by simp
  then show ?thesis using rd by (cases d) simp
qed

section \<open>The history list\<close>

text \<open>
  C6: a failing store leaves the state as it was. If \<^verbatim>\<open>addEntry\<close> fails, the state
  after \<^verbatim>\<open>handleSubmit\<close> is the state before (no entry added, the form fields kept)
  and the failure is logged and shown in one alert; if \<^verbatim>\<open>deleteEntry\<close> fails, the
  state after \<^verbatim>\<open>handleDelete\<close> is the state before and the failure is shown in one alert.
\<close>

theorem store_failure_keeps_entries:
  "(fst (addEntry env db (newEntry env st)) = Inl err \<longrightarrow>
      fst (handleSubmit env st db) = st) \<and>
   (glucose_field st \<noteq> [] \<and> ketones_field st \<noteq> [] \<and> parseFloat (ketones_field st) \<noteq> Fin 0 \<and>
    addEntry env db (newEntry env st) = (Inl err, db') \<longrightarrow>
      handleSubmit env st db =
        (st, db', [ConsoleError ''Error adding entry:'' (Some err),
                   Alert (errorSavingEntryDetailed (reason_of err))])) \<and>
   (deleteEntry env db i = (Inl err, db') \<longrightarrow>
      fst (handleDelete env st db i) = st \<and>
      (confirm_yes env \<longrightarrow>
         handleDelete env st db i =
           (st, db', [Alert (case err of ErrorObj m \<Rightarrow> errorDeletingEntryDetailed m
                             | OtherThrown \<Rightarrow> errorDeletingEntry)])))"
  by (cases i) (auto simp: handleSubmit_def handleDelete_def deleteEntry_def split: prod.splits)

theorem store_failure_keeps_entries_witness:
  "fst (addEntry (sample_env\<lparr>add_outcome := None\<rparr>) sample_db
          (newEntry (sample_env\<lparr>add_outcome := None\<rparr>)
             (sample_form ''90'' ''3.0'' [sample_entry 1 500])))
     = Inl (ErrorObj ''Failed to add entry'') \<and>
   fst (handleSubmit (sample_env\<lparr>add_outcome := None\<rparr>)
          (sample_form ''90'' ''3.0'' [sample_entry 1 500]) sample_db)
     = sample_form ''90'' ''3.0'' [sample_entry 1 500]"
proof -
  let ?env = "sample_env\<lparr>add_outcome := None\<rparr>"
  let ?st = "sample_form ''90'' ''3.0'' [sample_entry 1 500]"
  have f: "fst (addEntry ?env sample_db (newEntry ?env ?st))
             = Inl (ErrorObj ''Failed to add entry'')"
    by (simp add: addEntry_def openDatabase_def)
  show ?thesis
    using store_failure_keeps_entries
      [where env = ?env and st = ?st and db = sample_db
         and err = "ErrorObj ''Failed to add entry''"] f
    by simp
qed

lemma mset_insert_by: "mset (insert_by cmp x xs) = add_mset x (mset xs)"
  by (induction xs) simp_all

lemma mset_js_sort: "mset (js_sort cmp xs) = mset xs"
  by (induction xs) (simp_all add: js_sort_def mset_insert_by)

lemma set_insert_by: "set (insert_by cmp x xs) = insert x (set xs)"
  using mset_insert_by [of cmp x xs] by (metis set_mset_mset set_mset_add_mset_insert)

lemma sorted_insert_by:
  assumes "sorted_wrt (\<lambda>a b. timestamp b \<le> timestamp a) xs"
  shows "sorted_wrt (\<lambda>a b. timestamp b \<le> timestamp a)
           (insert_by (\<lambda>a b. timestamp b - timestamp a) x xs)"
  using assms
proof (induction xs)
  case Nil
  then show ?case by simp
next
  case (Cons y ys)
  show ?case
  proof (cases "timestamp y \<le> timestamp x")
    case True
    with Cons.prems show ?thesis by fastforce
  next
    case False
    with Cons show ?thesis by (auto simp: set_insert_by)
  qed
qed

lemma sorted_js_sort:
  "sorted_wrt (\<lambda>a b. timestamp b \<le> timestamp a) (js_sort (\<lambda>a b. timestamp b - timestamp a) xs)"
proof (induction xs)
  case Nil
  then show ?case by (simp add: js_sort_def)
next
  case (Cons x xs)
  then show ?case using sorted_insert_by by (simp add: js_sort_def)
qed

lemma initDB_entries:
  "open_ok env \<Longrightarrow> getAll_ok env \<Longrightarrow>
   entries (fst (initDB env st db)) =
     js_sort (\<lambda>a b. timestamp b - timestamp a) (map snd (records db))"
  by (simp add: initDB_def openDatabase_def getAllEntries_def log_op_def)

text \<open>
  C8: at start-up the history is the stored entries, each exactly once, ordered by
  timestamp descending: of two entries with different timestamps the later one comes
  first in the list.
\<close>

theorem initDB_newest_first:
  assumes "open_ok env" and "getAll_ok env"
  shows "mset (entries (fst (initDB env st db))) = mset (map snd (records db)) \<and>
         sorted_wrt (\<lambda>a b. timestamp b \<le> timestamp a) (entries (fst (initDB env st db))) \<and>
         (\<forall>i j. i < length (entries (fst (initDB env st db))) \<and>
                j < length (entries (fst (initDB env st db))) \<and>
                timestamp (entries (fst (initDB env st db)) ! i)
                  < timestamp (entries (fst (initDB env st db)) ! j) \<longrightarrow> j < i)"
proof -
  let ?es = "entries (fst (initDB env st db))"
  have es: "?es = js_sort (\<lambda>a b. timestamp b - timestamp a) (map snd (records db))"
    using assms by (rule initDB_entries)
  have m: "mset ?es = mset (map snd (records db))"
    unfolding es by (rule mset_js_sort)
  have s: "sorted_wrt (\<lambda>a b. timestamp b \<le> timestamp a) ?es"
    unfolding es by (rule sorted_js_sort)
  have "j < i" if "i < length ?es" "j < length ?es"
    "timestamp (?es ! i) < timestamp (?es ! j)" for i j
  proof (rule ccontr)
    assume "\<not> j < i"
    then have "i = j \<or> i < j" by linarith
    then show False
    proof
      assume "i = j"
      with that(3) show False by simp
    next
      assume "i < j"
      then have "timestamp (?es ! j) \<le> timestamp (?es ! i)"
        using s that(2) by (simp add: sorted_wrt_iff_nth_less)
      with that(3) show False by simp
    qed
  qed
  with m s show ?thesis by blast
qed

theorem initDB_newest_first_witness:
  "open_ok sample_env \<and> getAll_ok sample_env \<and>
   entries (fst (initDB sample_env (sample_form [] [] [])
      \<lparr>records = [(KeyNumber (Fin 1), sample_entry 1 10), (KeyNumber (Fin 2), sample_entry 2 20)],
       oplog = []\<rparr>))
   = [sample_entry 2 20, sample_entry 1 10]"
  using initDB_newest_first
    [where env = sample_env and st = "sample_form [] [] []"
       and db = "\<lparr>records = [(KeyNumber (Fin 1), sample_entry 1 10),
                              (KeyNumber (Fin 2), sample_entry 2 20)], oplog = []\<rparr>"]
  by (simp add: initDB_entries js_sort_def)

text \<open>
  C9: entries are created or deleted, never changed. A successful create puts the one
  new entry, with the index text computed from the form, in front of the list as it
  was; a submission never does anything else to the list. A successful delete keeps
  exactly the entries whose identifier differs from the given one, each as it was; a
  delete never does anything else to the list.
\<close>

theorem entries_only_created_or_deleted:
  "(glucose_field st \<noteq> [] \<and> ketones_field st \<noteq> [] \<and> parseFloat (ketones_field st) \<noteq> Fin 0 \<and>
    fst (addEntry env db (newEntry env st)) = Inr n \<longrightarrow>
      entries (fst (handleSubmit env st db)) = (newEntry env st)\<lparr>entry_id := Some n\<rparr> # entries st \<and>
      gki (newEntry env st) =
        calculateGKI (parseFloat (glucose_field st)) (parseFloat (ketones_field st))
          (glucoseUnit_field st)) \<and>
   (entries (fst (handleSubmit env st db)) = entries st \<or>
    (\<exists>e. entries (fst (handleSubmit env st db)) = e # entries st)) \<and>
   (confirm_yes env \<and> fst (deleteEntry env db (Some i)) = Inr () \<longrightarrow>
      entries (fst (handleDelete env st db (Some i))) = filter (id_differs i) (entries st) \<and>
      (i \<noteq> NaN \<longrightarrow>
         entries (fst (handleDelete env st db (Some i)))
           = filter (\<lambda>e. entry_id e \<noteq> Some i) (entries st))) \<and>
   (entries (fst (handleDelete env st db j)) = entries st \<or>
    (\<exists>m. j = Some m \<and> entries (fst (handleDelete env st db j)) = filter (id_differs m) (entries st)))"
proof -
  have differs: "id_differs i = (\<lambda>e. entry_id e \<noteq> Some i)" if "i \<noteq> NaN"
    using that by (auto simp: id_differs_def fun_eq_iff js_strict_eq_iff split: option.splits)
  have a: "glucose_field st \<noteq> [] \<and> ketones_field st \<noteq> [] \<and> parseFloat (ketones_field st) \<noteq> Fin 0 \<and>
    fst (addEntry env db (newEntry env st)) = Inr n \<longrightarrow>
      entries (fst (handleSubmit env st db)) = (newEntry env st)\<lparr>entry_id := Some n\<rparr> # entries st \<and>
      gki (newEntry env st) =
        calculateGKI (parseFloat (glucose_field st)) (parseFloat (ketones_field st))
          (glucoseUnit_field st)"
    by (auto simp: handleSubmit_def split: prod.splits sum.splits)
      (simp add: newEntry_def Let_def)
  have b: "entries (fst (handleSubmit env st db)) = entries st \<or>
    (\<exists>e. entries (fst (handleSubmit env st db)) = e # entries st)"
    by (auto simp: handleSubmit_def split: prod.splits sum.splits)
  have c: "confirm_yes env \<and> fst (deleteEntry env db (Some i)) = Inr () \<longrightarrow>
      entries (fst (handleDelete env st db (Some i))) = filter (id_differs i) (entries st)"
    by (auto simp: handleDelete_def split: prod.splits sum.splits)
  have d: "entries (fst (handleDelete env st db j)) = entries st \<or>
    (\<exists>m. j = Some m \<and> entries (fst (handleDelete env st db j)) = filter (id_differs m) (entries st))"
    by (cases j) (auto simp: handleDelete_def split: prod.splits sum.splits)
  from a b c d differs show ?thesis by metis
qed

theorem entries_only_created_or_deleted_witness:
  "fst (addEntry sample_env sample_db
          (newEntry sample_env (sample_form ''90'' ''3.0'' [sample_entry 1 500]))) = Inr (Fin 7) \<and>
   entries (fst (handleSubmit sample_env (sample_form ''90'' ''3.0'' [sample_entry 1 500])
                   sample_db))
     = [sample_entry 7 1000, sample_entry 1 500] \<and>
   fst (deleteEntry sample_env sample_db (Some (Fin 1))) = Inr () \<and>
   entries (fst (handleDelete sample_env
                   (sample_form [] [] [sample_entry 2 20, sample_entry 1 10]) sample_db
                   (Some (Fin 1))))
     = [sample_entry 2 20]"
proof -
  let ?st = "sample_form ''90'' ''3.0'' [sample_entry 1 500]"
  have g: "parseFloat ''90'' = Fin 90" by (simp add: text_eval)
  have k: "parseFloat ''3.0'' = Fin 3" by (simp add: text_eval)
  have t: "calculateGKI (Fin 90) (Fin 3) MgDl = ''1.7''" by (simp add: text_eval)
  have n: "newEntry sample_env ?st = (sample_entry 7 1000)\<lparr>entry_id := None\<rparr>"
    by (simp add: newEntry_def g k t)
  have a: "fst (addEntry sample_env sample_db (newEntry sample_env ?st)) = Inr (Fin 7)"
    by (simp add: addEntry_def openDatabase_def Let_def)
  have d: "fst (deleteEntry sample_env sample_db (Some (Fin 1))) = Inr ()"
    by (simp add: deleteEntry_def openDatabase_def Let_def)
  have pre: "glucose_field ?st \<noteq> [] \<and> ketones_field ?st \<noteq> [] \<and>
      parseFloat (ketones_field ?st) \<noteq> Fin 0 \<and>
      fst (addEntry sample_env sample_db (newEntry sample_env ?st)) = Inr (Fin 7)"
    using a k by simp
  have "entries (fst (handleSubmit sample_env ?st sample_db))
          = (newEntry sample_env ?st)\<lparr>entry_id := Some (Fin 7)\<rparr> # entries ?st"
    using entries_only_created_or_deleted
      [where env = sample_env and st = ?st and db = sample_db and n = "Fin 7",
        THEN conjunct1] pre
    by blast
  then have s: "entries (fst (handleSubmit sample_env ?st sample_db))
                  = [sample_entry 7 1000, sample_entry 1 500]"
    by (simp add: n)
  let ?st2 = "sample_form [] [] [sample_entry 2 20, sample_entry 1 10]"
  have c: "confirm_yes sample_env" by simp
  have ne: "Fin 1 \<noteq> NaN" by simp
  have "entries (fst (handleDelete sample_env ?st2 sample_db (Some (Fin 1))))
          = filter (\<lambda>e. entry_id e \<noteq> Some (Fin 1)) (entries ?st2)"
    using entries_only_created_or_deleted
      [where env = sample_env and st = ?st2 and db = sample_db and i = "Fin 1",
        THEN conjunct2, THEN conjunct2, THEN conjunct1] c d ne
    by blast
  then have r: "entries (fst (handleDelete sample_env ?st2 sample_db (Some (Fin 1))))
                  = [sample_entry 2 20]"
    by simp
  from a s d r show ?thesis by blast
qed

end
